theory Spec2Isabelle
  imports Complex_Main
begin

section \<open>The session orchestrator of the game client (src/client.ts)\<close>

text \<open>
  The class \<open>Client\<close> is embedded as a record that is passed through every method and
  returned updated. A method either returns normally or throws; both outcomes keep the
  state reached so far, since a JavaScript exception does not undo earlier assignments.
  Numbers of the source that hold identifiers are integers here.
\<close>

subsection \<open>Data of the protocol library\<close>

text \<open>
  The packet classes, \<open>FileType\<close>, \<open>Direction\<close> and \<open>Coords\<close> belong to the protocol
  library the client imports. Each packet class is a constructor whose arguments are the
  fields the client assigns, in the order of the assignments.
\<close>

datatype FileType = Emf | Eif | Enf | Esf | Ecf

datatype FileTypeData =
    FileTypeDataEcf (fileId: int)
  | FileTypeDataEif (fileId: int)
  | FileTypeDataEnf (fileId: int)
  | FileTypeDataEsf (fileId: int)
  | FileTypeDataEmf (fileId: int)

datatype Direction = Down | Left | Up | Right

record Coords =
  x :: int
  y :: int

datatype packet =
    LoginRequestClientPacket string string
  | WelcomeRequestClientPacket int
  | WarpTakeClientPacket int int
  | WarpAcceptClientPacket int int
  | WelcomeAgreeClientPacket int FileType FileTypeData
  | WelcomeMsgClientPacket int int
  | ProfileFetchRequest int

text \<open>
  \<open>LoginRequestClientPacket username password\<close>, \<open>WelcomeRequestClientPacket characterId\<close>,
  \<open>WarpTakeClientPacket sessionId mapId\<close>, \<open>WarpAcceptClientPacket sessionId mapId\<close>,
  \<open>WelcomeAgreeClientPacket sessionId fileType fileTypeData\<close> and
  \<open>WelcomeMsgClientPacket characterId sessionId\<close>.

  Modelled from the spec: \<open>ProfileFetchRequest playerId\<close> is the profile-fetch request
  that the spec's entity discovery issues for a player identifier; the handler that
  builds it is not among the sources.
\<close>

fun packet_sessionId :: "packet \<Rightarrow> int option" where
  "packet_sessionId (LoginRequestClientPacket username password) = None"
| "packet_sessionId (WelcomeRequestClientPacket characterId) = None"
| "packet_sessionId (WarpTakeClientPacket sessionId mapId) = Some sessionId"
| "packet_sessionId (WarpAcceptClientPacket sessionId mapId) = Some sessionId"
| "packet_sessionId (WelcomeAgreeClientPacket sessionId fileType fileTypeData) = Some sessionId"
| "packet_sessionId (WelcomeMsgClientPacket characterId sessionId) = Some sessionId"
| "packet_sessionId (ProfileFetchRequest playerId) = None"

typedecl CharacterSelectionListEntry
typedecl ServerSettings
typedecl NpcMapInfo
typedecl ItemMapInfo
typedecl Eif
typedecl Ecf
typedecl Enf
typedecl Esf
typedecl Emf

record CharacterMapInfo =
  playerId_info :: int

record NearbyInfo =
  characters :: "CharacterMapInfo list"
  npcs :: "NpcMapInfo list"
  items :: "ItemMapInfo list"

subsection \<open>The event channel and the transport\<close>

text \<open>The type \<open>ClientEvents\<close>: one constructor for each event name, with its payload.\<close>

datatype ClientEvents =
    Error_event string string
  | Debug_event string
  | Login_event "CharacterSelectionListEntry list"
  | SelectCharacter_event
  | EnterGame_event "string list"
  | PlayerWalk_event int Direction Coords
  | NpcWalk_event int Direction Coords
  | SwitchMap_event
  | Refresh_event

text \<open>
  The handler modules that \<open>setBus\<close> attaches, one for each \<open>register...Handlers\<close> call.
\<close>

datatype handler_module =
    InitHandlers | ConnectionHandlers | LoginHandlers | WelcomeHandlers
  | PlayersHandlers | AvatarHandlers | FaceHandlers | WalkHandlers
  | SitHandlers | WarpHandlers | RefreshHandlers | NpcHandlers

text \<open>
  Modelled from the spec: the class \<open>PacketBus\<close> of \<open>./bus\<close> is not among the sources.
  The spec gives its contract: \<open>send(message)\<close> enqueues an outgoing protocol message and
  has no return value, and handler modules register their callbacks on it when the
  channel is attached. The bus is the sequence of messages handed to \<open>send\<close>, oldest
  first, and the sequence of handler modules registered on it.
\<close>

record PacketBus =
  outbox :: "packet list"
  handlers :: "handler_module list"

subsection \<open>The client\<close>

datatype GameState = Initial | Connected | Login | LoggedIn | InGame

text \<open>
  The class \<open>Character\<close> of \<open>./character\<close> is not among the sources; the client reads
  its \<open>id\<close> only.
\<close>

record Character =
  id_Character :: int

text \<open>
  The fields of \<open>Client\<close>, in the order of their declaration. The emitter is the
  sequence of events published so far (its subscribers are outside the class). The field
  \<open>map\<close> is \<open>map_Client\<close>.
\<close>

record Client =
  emitter :: "ClientEvents list"
  bus :: "PacketBus option"
  playerId :: int
  character :: Character
  mapId :: int
  warpMapId :: int
  warpQueued :: bool
  state :: GameState
  sessionId :: int
  serverSettings :: "ServerSettings option"
  motd :: string
  nearby :: NearbyInfo
  eif :: "Eif option"
  ecf :: "Ecf option"
  enf :: "Enf option"
  esf :: "Esf option"
  map_Client :: "Emf option"
  downloadQueue :: "(FileType \<times> int) list"
  unknownPlayerIds :: "int set"

text \<open>
  The field initialisers and the constructor. The value of \<open>new Character()\<close> is a
  parameter. The four loads the constructor starts complete later, so the four definition
  slots are still \<open>null\<close> when it returns.
\<close>

definition Client_new :: "Character \<Rightarrow> Client" where
  "Client_new new_Character =
     \<lparr> emitter = [],
       bus = None,
       playerId = 0,
       character = new_Character,
       mapId = 5,
       warpMapId = 0,
       warpQueued = False,
       state = Initial,
       sessionId = 0,
       serverSettings = None,
       motd = [],
       nearby = \<lparr> characters = [], npcs = [], items = [] \<rparr>,
       eif = None,
       ecf = None,
       enf = None,
       esf = None,
       map_Client = None,
       downloadQueue = [],
       unknownPlayerIds = {} \<rparr>"

datatype error = TypeError

datatype completion = Normal | Throw error

definition emit :: "ClientEvents \<Rightarrow> Client \<Rightarrow> Client" where
  "emit event c = c\<lparr>emitter := emitter c @ [event]\<rparr>"

definition showError :: "string \<Rightarrow> string \<Rightarrow> Client \<Rightarrow> Client" where
  "showError message title c = emit (Error_event title message) c"

text \<open>
  The statement \<open>this.bus.send(packet)\<close>: reading \<open>send\<close> of a \<open>null\<close> bus throws a
  \<open>TypeError\<close> and nothing is sent; otherwise the packet is handed to the bus.
\<close>

definition bus_send :: "packet \<Rightarrow> Client \<Rightarrow> completion \<times> Client" where
  "bus_send packet c =
     (case bus c of
        None \<Rightarrow> (Throw TypeError, c)
      | Some b \<Rightarrow> (Normal, c\<lparr>bus := Some (b\<lparr>outbox := outbox b @ [packet]\<rparr>)\<rparr>))"

text \<open>
  Modelled from the spec: the twelve \<open>register...Handlers\<close> functions of \<open>./handlers\<close>
  are not among the sources. By the spec each handler module registers its callbacks on
  the transport when the channel is attached.
\<close>

definition registerHandlers :: "handler_module \<Rightarrow> Client \<Rightarrow> Client" where
  "registerHandlers h c =
     c\<lparr>bus := map_option (\<lambda>b. b\<lparr>handlers := handlers b @ [h]\<rparr>) (bus c)\<rparr>"

definition setBus :: "PacketBus \<Rightarrow> Client \<Rightarrow> Client" where
  "setBus b c =
     fold registerHandlers
       [InitHandlers, ConnectionHandlers, LoginHandlers, WelcomeHandlers,
        PlayersHandlers, AvatarHandlers, FaceHandlers, WalkHandlers,
        SitHandlers, WarpHandlers, RefreshHandlers, NpcHandlers]
       (c\<lparr>bus := Some b\<rparr>)"

definition login :: "string \<Rightarrow> string \<Rightarrow> Client \<Rightarrow> completion \<times> Client" where
  "login username password c =
     (let packet = LoginRequestClientPacket username password
      in bus_send packet c)"

definition selectCharacter :: "int \<Rightarrow> Client \<Rightarrow> completion \<times> Client" where
  "selectCharacter characterId c =
     (let packet = WelcomeRequestClientPacket characterId
      in bus_send packet c)"

definition requestWarpMap :: "int \<Rightarrow> Client \<Rightarrow> completion \<times> Client" where
  "requestWarpMap id' c =
     (let packet = WarpTakeClientPacket (sessionId c) id'
      in bus_send packet c)"

definition acceptWarp :: "Client \<Rightarrow> completion \<times> Client" where
  "acceptWarp c =
     (let packet = WarpAcceptClientPacket (sessionId c) (warpMapId c)
      in case bus_send packet c of
           (Throw e, c') \<Rightarrow> (Throw e, c')
         | (Normal, c') \<Rightarrow> (Normal, c'\<lparr>warpQueued := False\<rparr>))"

text \<open>
  The \<open>switch\<close> of \<open>requestFile\<close>: the payload object it creates and the text of the
  \<open>debug\<close> event it emits, case by case in the order of the source. The parameter
  \<open>id\<close> of the source is \<open>id'\<close>.
\<close>

fun requestFile_fileTypeData :: "FileType \<Rightarrow> int \<Rightarrow> FileTypeData" where
  "requestFile_fileTypeData Ecf id' = FileTypeDataEcf id'"
| "requestFile_fileTypeData Eif id' = FileTypeDataEif id'"
| "requestFile_fileTypeData Enf id' = FileTypeDataEnf id'"
| "requestFile_fileTypeData Esf id' = FileTypeDataEsf id'"
| "requestFile_fileTypeData Emf id' = FileTypeDataEmf id'"

fun requestFile_debug :: "FileType \<Rightarrow> string" where
  "requestFile_debug Ecf = ''Loading classes..''"
| "requestFile_debug Eif = ''Loading items..''"
| "requestFile_debug Enf = ''Loading NPCs..''"
| "requestFile_debug Esf = ''Loading spells..''"
| "requestFile_debug Emf = ''Loading map..''"

definition requestFile :: "FileType \<Rightarrow> int \<Rightarrow> Client \<Rightarrow> completion \<times> Client" where
  "requestFile fileType id' c =
     (let packet = WelcomeAgreeClientPacket (sessionId c) fileType
                     (requestFile_fileTypeData fileType id');
          c1 = emit (Debug_event (requestFile_debug fileType)) c
      in bus_send packet c1)"

definition enterGame :: "Client \<Rightarrow> completion \<times> Client" where
  "enterGame c =
     (let packet = WelcomeMsgClientPacket (id_Character (character c)) (sessionId c)
      in bus_send packet c)"

subsection \<open>Observing a call\<close>

text \<open>
  The messages handed to the transport so far (none without a bus), and the messages
  and events that a call adds, read off the states before and after it.
\<close>

definition outgoing :: "Client \<Rightarrow> packet list" where
  "outgoing c = (case bus c of None \<Rightarrow> [] | Some b \<Rightarrow> outbox b)"

definition sent_during :: "Client \<Rightarrow> Client \<Rightarrow> packet list" where
  "sent_during c c' = drop (length (outgoing c)) (outgoing c')"

definition emitted_during :: "Client \<Rightarrow> Client \<Rightarrow> ClientEvents list" where
  "emitted_during c c' = drop (length (emitter c)) (emitter c')"

subsection \<open>Entity discovery\<close>

text \<open>
  Modelled from the spec: the handlers that receive nearby-update notifications and
  profile data are not among the sources; the client holds only the set
  \<open>unknownPlayerIds\<close> they work on. By the spec, a nearby-update notification that
  references a player identifier not present in Character/NearbyInfo adds the identifier
  to \<open>UnknownPlayerIds\<close> and issues a profile-fetch request, after checking set
  membership before adding and requesting; on receipt of the profile, the identifier is
  removed from the set and the entity is merged into NearbyInfo.
\<close>

text \<open>
  Modelled from the spec: the identifier is present when it is the local character's or
  that of a character in \<open>nearby.characters\<close>.
\<close>

definition present :: "int \<Rightarrow> Client \<Rightarrow> bool" where
  "present pid c \<longleftrightarrow>
     pid = id_Character (character c) \<or>
     pid \<in> set (map playerId_info (characters (nearby c)))"

text \<open>
  Modelled from the spec: the handling of one nearby-update notification that references
  the player identifier \<open>pid\<close>. Membership is checked before adding and requesting.
\<close>

definition nearbyUpdate :: "int \<Rightarrow> Client \<Rightarrow> completion \<times> Client" where
  "nearbyUpdate pid c =
     (if present pid c then (Normal, c)
      else if pid \<in> unknownPlayerIds c then (Normal, c)
      else bus_send (ProfileFetchRequest pid)
             (c\<lparr>unknownPlayerIds := insert pid (unknownPlayerIds c)\<rparr>))"

text \<open>
  Modelled from the spec: the receipt of the profile data \<open>info\<close>. Its identifier is
  removed from the set and the entity is merged into \<open>nearby.characters\<close>.
\<close>

definition profileReceived :: "CharacterMapInfo \<Rightarrow> Client \<Rightarrow> Client" where
  "profileReceived info c =
     c\<lparr>unknownPlayerIds := unknownPlayerIds c - {playerId_info info},
       nearby := (nearby c)\<lparr>characters := characters (nearby c) @ [info]\<rparr>\<rparr>"

text \<open>
  Modelled from the spec: inbound messages are delivered one at a time in arrival order,
  each dispatched to its handler and handled to its end before the next; a handler that
  throws does not stop the delivery of the later ones. \<open>fetches pid c\<close> counts the
  profile-fetch requests for \<open>pid\<close> among the messages sent so far.
\<close>

datatype notification = NearbyUpdate int | ProfileData CharacterMapInfo

fun handle :: "notification \<Rightarrow> Client \<Rightarrow> Client" where
  "handle (NearbyUpdate pid) c = snd (nearbyUpdate pid c)"
| "handle (ProfileData info) c = profileReceived info c"

fun handle_all :: "notification list \<Rightarrow> Client \<Rightarrow> Client" where
  "handle_all [] c = c"
| "handle_all (n # ns) c = handle_all ns (handle n c)"

definition fetches :: "int \<Rightarrow> Client \<Rightarrow> nat" where
  "fetches pid c = count_list (outgoing c) (ProfileFetchRequest pid)"

section \<open>The death animation of an NPC (src/render/npc-death.ts)\<close>

text \<open>
  The animation object with the one field that \<open>tick\<close> and the opacity read. The constant
  \<open>NPC_DEATH_TICKS\<close> of \<open>../consts\<close> is not among the sources and is a parameter of the
  constructor and of \<open>render\<close>. \<open>Math.max\<close> is \<open>max\<close>.
\<close>

record NpcDeathAnimation =
  ticks :: int

definition NpcDeathAnimation_new :: "int \<Rightarrow> NpcDeathAnimation" where
  "NpcDeathAnimation_new NPC_DEATH_TICKS = \<lparr> ticks = NPC_DEATH_TICKS \<rparr>"

definition tick :: "NpcDeathAnimation \<Rightarrow> NpcDeathAnimation" where
  "tick a = a\<lparr>ticks := max (ticks a - 1) 0\<rparr>"

text \<open>
  The value that \<open>render\<close> assigns to \<open>ctx.globalAlpha\<close> before it draws: the quotient
  \<open>this.ticks / NPC_DEATH_TICKS\<close>, taken exactly.
\<close>

definition render_globalAlpha :: "int \<Rightarrow> NpcDeathAnimation \<Rightarrow> rat" where
  "render_globalAlpha NPC_DEATH_TICKS a = of_int (ticks a) / of_int NPC_DEATH_TICKS"

section \<open>Example states\<close>

text \<open>
  Three concrete states on which the theorems below are evaluated: a client as the
  constructor leaves it, a bus with nothing sent or registered, and a client in play
  after \<open>setBus\<close> with a session identifier and a pending warp target assigned.
\<close>

definition fresh_Client :: Client where
  "fresh_Client = Client_new \<lparr> id_Character = 1 \<rparr>"

definition empty_bus :: PacketBus where
  "empty_bus = \<lparr> outbox = [], handlers = [] \<rparr>"

definition attached_Client :: Client where
  "attached_Client =
     (setBus empty_bus fresh_Client)\<lparr>state := LoggedIn, sessionId := 9, warpMapId := 7\<rparr>"

section \<open>Properties of the client\<close>

lemma sent_during_same [simp]: "sent_during c c = []"
  by (simp add: sent_during_def)

lemma sent_during_append:
  "bus c = Some b \<Longrightarrow>
   sent_during c (c'\<lparr>bus := Some (b\<lparr>outbox := outbox b @ ps\<rparr>)\<rparr>) = ps"
  by (simp add: sent_during_def outgoing_def)

lemmas example_defs =
  fresh_Client_def empty_bus_def attached_Client_def Client_new_def setBus_def
  registerHandlers_def

lemma attached_Client_fields:
  "bus attached_Client = Some \<lparr>outbox = [],
     handlers = [InitHandlers, ConnectionHandlers, LoginHandlers, WelcomeHandlers,
        PlayersHandlers, AvatarHandlers, FaceHandlers, WalkHandlers,
        SitHandlers, WarpHandlers, RefreshHandlers, NpcHandlers]\<rparr>"
  "state attached_Client = LoggedIn"
  "sessionId attached_Client = 9"
  "warpMapId attached_Client = 7"
  "warpQueued attached_Client = False"
  "mapId attached_Client = 5"
  "map_Client attached_Client = None"
  "character attached_Client = \<lparr>id_Character = 1\<rparr>"
  "emitter attached_Client = []"
  "nearby attached_Client = \<lparr>characters = [], npcs = [], items = []\<rparr>"
  "unknownPlayerIds attached_Client = {}"
  by (simp_all add: example_defs)

lemma fresh_Client_fields:
  "bus fresh_Client = None"
  "state fresh_Client = Initial"
  "sessionId fresh_Client = 0"
  "warpMapId fresh_Client = 0"
  "warpQueued fresh_Client = False"
  "mapId fresh_Client = 5"
  "character fresh_Client = \<lparr>id_Character = 1\<rparr>"
  "emitter fresh_Client = []"
  by (simp_all add: example_defs)

subsection \<open>login\<close>

text \<open>
  Claim C5, as stated: for every username and password, \<open>login(username, password)\<close>
  sends exactly one login-request message with these fields, and leaves \<open>state\<close> and
  the other session fields unchanged. On a client that has no bus yet the call throws
  instead and sends nothing: here is the call of Scenario A on a client as constructed.
\<close>

theorem login_without_bus_counterexample:
  "login ''bob'' ''pw'' fresh_Client = (Throw TypeError, fresh_Client) \<and>
   sent_during fresh_Client (snd (login ''bob'' ''pw'' fresh_Client)) = []"
  by (simp add: login_def bus_send_def fresh_Client_fields)

text \<open>
  Claim C5, amended: for every username and password, \<open>login\<close> leaves \<open>state\<close>,
  \<open>sessionId\<close>, \<open>playerId\<close>, \<open>warpMapId\<close> and \<open>warpQueued\<close> unchanged; on a client
  with a bus attached it returns normally, sends exactly one login-request message whose
  username and password are the arguments, and changes nothing but the bus.
\<close>

theorem login_sends_request:
  "state (snd (login username password c)) = state c \<and>
   sessionId (snd (login username password c)) = sessionId c \<and>
   playerId (snd (login username password c)) = playerId c \<and>
   warpMapId (snd (login username password c)) = warpMapId c \<and>
   warpQueued (snd (login username password c)) = warpQueued c \<and>
   (\<forall>b. bus c = Some b \<longrightarrow>
      fst (login username password c) = Normal \<and>
      sent_during c (snd (login username password c)) =
        [LoginRequestClientPacket username password] \<and>
      snd (login username password c) =
        c\<lparr>bus := Some (b\<lparr>outbox :=
             outbox b @ [LoginRequestClientPacket username password]\<rparr>)\<rparr>)"
  by (simp add: login_def bus_send_def sent_during_append split: option.split)

theorem login_sends_request_witness:
  "bus attached_Client \<noteq> None \<and>
   fst (login ''bob'' ''pw'' attached_Client) = Normal \<and>
   sent_during attached_Client (snd (login ''bob'' ''pw'' attached_Client))
     = [LoginRequestClientPacket ''bob'' ''pw''] \<and>
   state (snd (login ''bob'' ''pw'' attached_Client)) = LoggedIn"
  using login_sends_request [of "''bob''" "''pw''" attached_Client]
  by (auto simp add: attached_Client_fields)

subsection \<open>requestWarpMap\<close>

text \<open>
  Claim C8, as stated: for every \<open>mapId\<close>, \<open>requestWarpMap(mapId)\<close> sends exactly one
  warp-initiation message. On a client that has no bus yet the call throws instead and
  sends nothing.
\<close>

theorem requestWarpMap_without_bus_counterexample:
  "requestWarpMap 7 fresh_Client = (Throw TypeError, fresh_Client) \<and>
   sent_during fresh_Client (snd (requestWarpMap 7 fresh_Client)) = []"
  by (simp add: requestWarpMap_def bus_send_def fresh_Client_fields)

text \<open>
  Claim C8, amended: for every \<open>mapId\<close>, \<open>requestWarpMap(mapId)\<close> leaves the client's
  \<open>mapId\<close>, \<open>map\<close>, \<open>warpMapId\<close> and \<open>warpQueued\<close> as they were; on a client with a bus
  attached it returns normally and sends exactly one warp-initiation message that
  carries the current \<open>sessionId\<close> and the given \<open>mapId\<close>, changing nothing but the bus.
\<close>

theorem requestWarpMap_frame:
  "mapId (snd (requestWarpMap id' c)) = mapId c \<and>
   map_Client (snd (requestWarpMap id' c)) = map_Client c \<and>
   warpMapId (snd (requestWarpMap id' c)) = warpMapId c \<and>
   warpQueued (snd (requestWarpMap id' c)) = warpQueued c \<and>
   (\<forall>b. bus c = Some b \<longrightarrow>
      fst (requestWarpMap id' c) = Normal \<and>
      sent_during c (snd (requestWarpMap id' c)) =
        [WarpTakeClientPacket (sessionId c) id'] \<and>
      snd (requestWarpMap id' c) =
        c\<lparr>bus := Some (b\<lparr>outbox :=
             outbox b @ [WarpTakeClientPacket (sessionId c) id']\<rparr>)\<rparr>)"
  by (simp add: requestWarpMap_def bus_send_def sent_during_append split: option.split)

theorem requestWarpMap_frame_witness:
  "bus attached_Client \<noteq> None \<and>
   sent_during attached_Client (snd (requestWarpMap 7 attached_Client))
     = [WarpTakeClientPacket 9 7] \<and>
   mapId (snd (requestWarpMap 7 attached_Client)) = 5 \<and>
   map_Client (snd (requestWarpMap 7 attached_Client)) = None \<and>
   warpMapId (snd (requestWarpMap 7 attached_Client)) = 7 \<and>
   \<not> warpQueued (snd (requestWarpMap 7 attached_Client))"
  using requestWarpMap_frame [of 7 attached_Client]
  by (auto simp add: attached_Client_fields)

subsection \<open>enterGame\<close>

text \<open>
  Claim C7, as stated: for every client state, \<open>enterGame()\<close> sends exactly one
  game-entry confirmation message. In the state the constructor leaves, with no bus, the
  call throws instead and sends nothing.
\<close>

theorem enterGame_without_bus_counterexample:
  "enterGame fresh_Client = (Throw TypeError, fresh_Client) \<and>
   sent_during fresh_Client (snd (enterGame fresh_Client)) = []"
  by (simp add: enterGame_def bus_send_def fresh_Client_fields)

text \<open>
  Claim C7, amended: for every client state, \<open>enterGame()\<close> leaves \<open>state\<close> unchanged,
  so it never sets it to \<open>InGame\<close> itself; in every state with a bus attached it returns
  normally and sends exactly one game-entry confirmation message whose \<open>characterId\<close>
  is the current \<open>character.id\<close> and whose \<open>sessionId\<close> is the current \<open>sessionId\<close>,
  changing nothing but the bus.
\<close>

theorem enterGame_sends_confirmation:
  "state (snd (enterGame c)) = state c \<and>
   (\<forall>b. bus c = Some b \<longrightarrow>
      fst (enterGame c) = Normal \<and>
      sent_during c (snd (enterGame c)) =
        [WelcomeMsgClientPacket (id_Character (character c)) (sessionId c)] \<and>
      snd (enterGame c) =
        c\<lparr>bus := Some (b\<lparr>outbox := outbox b @
             [WelcomeMsgClientPacket (id_Character (character c)) (sessionId c)]\<rparr>)\<rparr>)"
  by (simp add: enterGame_def bus_send_def sent_during_append split: option.split)

theorem enterGame_sends_confirmation_witness:
  "bus attached_Client \<noteq> None \<and>
   sent_during attached_Client (snd (enterGame attached_Client))
     = [WelcomeMsgClientPacket 1 9] \<and>
   state (snd (enterGame attached_Client)) = LoggedIn \<and>
   state (snd (enterGame attached_Client)) \<noteq> InGame"
  using enterGame_sends_confirmation [of attached_Client]
  by (auto simp add: attached_Client_fields)

subsection \<open>acceptWarp\<close>

text \<open>
  Claim C4, as stated: for every client state in which \<open>warpQueued\<close> is true,
  \<open>acceptWarp()\<close> sends exactly one acceptance message and afterwards \<open>warpQueued\<close> is
  false. In a state with \<open>warpQueued\<close> true and no bus, the call throws at
  \<open>this.bus.send\<close>, before the assignment that clears the flag: nothing is sent and
  \<open>warpQueued\<close> stays true.
\<close>

theorem acceptWarp_without_bus_counterexample:
  "warpQueued (fresh_Client\<lparr>warpQueued := True\<rparr>) \<and>
   fst (acceptWarp (fresh_Client\<lparr>warpQueued := True\<rparr>)) = Throw TypeError \<and>
   sent_during (fresh_Client\<lparr>warpQueued := True\<rparr>)
     (snd (acceptWarp (fresh_Client\<lparr>warpQueued := True\<rparr>))) = [] \<and>
   warpQueued (snd (acceptWarp (fresh_Client\<lparr>warpQueued := True\<rparr>)))"
  by (simp add: acceptWarp_def bus_send_def fresh_Client_fields)

text \<open>
  Claim C4, amended: for every client state with a bus attached in which \<open>warpQueued\<close>
  is true, \<open>acceptWarp()\<close> returns normally, sends exactly one acceptance message whose
  \<open>sessionId\<close> is the client's \<open>sessionId\<close> and whose \<open>mapId\<close> is the client's
  \<open>warpMapId\<close>, and afterwards \<open>warpQueued\<close> is false; nothing else changes.
\<close>

theorem acceptWarp_queued:
  assumes "warpQueued c" and "bus c = Some b"
  shows "fst (acceptWarp c) = Normal \<and>
         sent_during c (snd (acceptWarp c)) =
           [WarpAcceptClientPacket (sessionId c) (warpMapId c)] \<and>
         \<not> warpQueued (snd (acceptWarp c)) \<and>
         snd (acceptWarp c) =
           c\<lparr>bus := Some (b\<lparr>outbox := outbox b @
                  [WarpAcceptClientPacket (sessionId c) (warpMapId c)]\<rparr>),
             warpQueued := False\<rparr>"
  using assms by (simp add: acceptWarp_def bus_send_def sent_during_def outgoing_def)

theorem acceptWarp_queued_witness:
  "warpQueued (attached_Client\<lparr>warpQueued := True\<rparr>) \<and>
   bus (attached_Client\<lparr>warpQueued := True\<rparr>) \<noteq> None \<and>
   fst (acceptWarp (attached_Client\<lparr>warpQueued := True\<rparr>)) = Normal \<and>
   sent_during (attached_Client\<lparr>warpQueued := True\<rparr>)
     (snd (acceptWarp (attached_Client\<lparr>warpQueued := True\<rparr>)))
     = [WarpAcceptClientPacket 9 7] \<and>
   \<not> warpQueued (snd (acceptWarp (attached_Client\<lparr>warpQueued := True\<rparr>)))"
  using acceptWarp_queued [of "attached_Client\<lparr>warpQueued := True\<rparr>"]
  by (auto simp add: attached_Client_fields)

text \<open>
  Claim C1, as stated: for every client state in which \<open>warpQueued\<close> is false,
  \<open>acceptWarp()\<close> sends no outgoing message. The method does not read \<open>warpQueued\<close>:
  with a bus attached and no warp queued it sends an acceptance message all the same.
\<close>

theorem acceptWarp_not_queued_counterexample:
  "\<not> warpQueued attached_Client \<and>
   fst (acceptWarp attached_Client) = Normal \<and>
   sent_during attached_Client (snd (acceptWarp attached_Client))
     = [WarpAcceptClientPacket 9 7]"
  by (simp add: acceptWarp_def bus_send_def sent_during_def outgoing_def
      attached_Client_fields)

text \<open>
  Claim C1, amended: for every client state in which \<open>warpQueued\<close> is false,
  \<open>acceptWarp()\<close> leaves \<open>warpMapId\<close> unchanged and \<open>warpQueued\<close> false; it sends no
  message when no bus is attached (the call then throws a \<open>TypeError\<close>), and with a
  bus attached it sends one acceptance message carrying \<open>sessionId\<close> and \<open>warpMapId\<close>.
\<close>

theorem acceptWarp_not_queued:
  assumes "\<not> warpQueued c"
  shows "warpMapId (snd (acceptWarp c)) = warpMapId c \<and>
         \<not> warpQueued (snd (acceptWarp c)) \<and>
         (bus c = None \<longrightarrow>
            acceptWarp c = (Throw TypeError, c) \<and>
            sent_during c (snd (acceptWarp c)) = []) \<and>
         (\<forall>b. bus c = Some b \<longrightarrow>
            fst (acceptWarp c) = Normal \<and>
            sent_during c (snd (acceptWarp c)) =
              [WarpAcceptClientPacket (sessionId c) (warpMapId c)])"
  using assms
  by (simp add: acceptWarp_def bus_send_def sent_during_def outgoing_def
      split: option.split)

theorem acceptWarp_not_queued_witness:
  "\<not> warpQueued fresh_Client \<and> bus fresh_Client = None \<and>
   acceptWarp fresh_Client = (Throw TypeError, fresh_Client) \<and>
   \<not> warpQueued attached_Client \<and> bus attached_Client \<noteq> None \<and>
   warpMapId (snd (acceptWarp attached_Client)) = 7 \<and>
   \<not> warpQueued (snd (acceptWarp attached_Client))"
  using acceptWarp_not_queued [of fresh_Client] acceptWarp_not_queued [of attached_Client]
  by (auto simp add: attached_Client_fields fresh_Client_fields)

subsection \<open>requestFile\<close>

lemma emitted_during_emit:
  "emitter c' = emitter c @ evs \<Longrightarrow> emitted_during c c' = evs"
  by (simp add: emitted_during_def)

lemma requestFile_result:
  "requestFile fileType id' c =
     bus_send
       (WelcomeAgreeClientPacket (sessionId c) fileType (requestFile_fileTypeData fileType id'))
       (c\<lparr>emitter := emitter c @ [Debug_event (requestFile_debug fileType)]\<rparr>)"
  by (simp add: requestFile_def emit_def)

lemma emitter_bus_send: "emitter (snd (bus_send packet c)) = emitter c"
  by (simp add: bus_send_def split: option.split)

text \<open>
  Claim C6: for every resource kind (\<open>Ecf\<close> for classes, \<open>Eif\<close> for items, \<open>Enf\<close> for
  NPCs, \<open>Esf\<close> for spells, \<open>Emf\<close> for the map) and every identifier, \<open>requestFile\<close>
  builds one agree message whose payload is the variant of that kind, a different
  variant for each kind, with \<open>fileId\<close> the identifier; the call emits exactly one
  event, a \<open>debug\<close> event whose text names the category being loaded; whatever the
  call sends is that one message, and with a bus attached it is sent exactly once.
\<close>

theorem requestFile_builds_agree:
  "emitted_during c (snd (requestFile fileType id' c))
     = [Debug_event (requestFile_debug fileType)] \<and>
   requestFile_debug Ecf = ''Loading classes..'' \<and>
   requestFile_debug Eif = ''Loading items..'' \<and>
   requestFile_debug Enf = ''Loading NPCs..'' \<and>
   requestFile_debug Esf = ''Loading spells..'' \<and>
   requestFile_debug Emf = ''Loading map..'' \<and>
   requestFile_fileTypeData Ecf id' = FileTypeDataEcf id' \<and>
   requestFile_fileTypeData Eif id' = FileTypeDataEif id' \<and>
   requestFile_fileTypeData Enf id' = FileTypeDataEnf id' \<and>
   requestFile_fileTypeData Esf id' = FileTypeDataEsf id' \<and>
   requestFile_fileTypeData Emf id' = FileTypeDataEmf id' \<and>
   fileId (requestFile_fileTypeData fileType id') = id' \<and>
   (requestFile_fileTypeData fileType id' = requestFile_fileTypeData fileType' id''
      \<longleftrightarrow> fileType = fileType' \<and> id' = id'') \<and>
   (bus c = None \<longrightarrow> sent_during c (snd (requestFile fileType id' c)) = []) \<and>
   (\<forall>b. bus c = Some b \<longrightarrow>
      fst (requestFile fileType id' c) = Normal \<and>
      sent_during c (snd (requestFile fileType id' c)) =
        [WelcomeAgreeClientPacket (sessionId c) fileType
           (requestFile_fileTypeData fileType id')])"
proof -
  have ev: "emitted_during c (snd (requestFile fileType id' c))
      = [Debug_event (requestFile_debug fileType)]"
    by (rule emitted_during_emit) (simp add: requestFile_result emitter_bus_send)
  have fid: "fileId (requestFile_fileTypeData fileType id') = id'"
    by (cases fileType) simp_all
  have inj: "requestFile_fileTypeData fileType id' = requestFile_fileTypeData fileType' id''
      \<longleftrightarrow> fileType = fileType' \<and> id' = id''"
    by (cases fileType; cases fileType') simp_all
  have none: "bus c = None \<longrightarrow> sent_during c (snd (requestFile fileType id' c)) = []"
    by (simp add: requestFile_result bus_send_def sent_during_def outgoing_def)
  have some: "\<forall>b. bus c = Some b \<longrightarrow>
      fst (requestFile fileType id' c) = Normal \<and>
      sent_during c (snd (requestFile fileType id' c)) =
        [WelcomeAgreeClientPacket (sessionId c) fileType
           (requestFile_fileTypeData fileType id')]"
    by (simp add: requestFile_result bus_send_def sent_during_def outgoing_def)
  from ev fid inj none some show ?thesis by simp
qed

theorem requestFile_builds_agree_witness:
  "bus attached_Client \<noteq> None \<and>
   fst (requestFile Emf 5 attached_Client) = Normal \<and>
   sent_during attached_Client (snd (requestFile Emf 5 attached_Client))
     = [WelcomeAgreeClientPacket 9 Emf (FileTypeDataEmf 5)] \<and>
   emitted_during attached_Client (snd (requestFile Emf 5 attached_Client))
     = [Debug_event ''Loading map..''] \<and>
   bus fresh_Client = None \<and>
   sent_during fresh_Client (snd (requestFile Ecf 1 fresh_Client)) = [] \<and>
   emitted_during fresh_Client (snd (requestFile Ecf 1 fresh_Client))
     = [Debug_event ''Loading classes..'']"
  using requestFile_builds_agree [of attached_Client Emf 5]
    requestFile_builds_agree [of fresh_Client Ecf 1]
  by (auto simp add: attached_Client_fields fresh_Client_fields)

subsection \<open>The session identifier on outgoing messages\<close>

text \<open>
  Claim C2: for every client state and arguments, every message that \<open>requestWarpMap\<close>,
  \<open>acceptWarp\<close>, \<open>requestFile\<close> or \<open>enterGame\<close> sends carries as its \<open>sessionId\<close> the
  client's \<open>sessionId\<close> at the time of the call; with a bus attached each of them sends
  the message it builds, which is the warp-initiation, the warp-acceptance, the
  file-agree and the game-entry message stamped with that value.
\<close>

theorem session_messages_carry_sessionId:
  "(\<forall>p \<in> set (sent_during c (snd (requestWarpMap id' c))).
      packet_sessionId p = Some (sessionId c)) \<and>
   (\<forall>p \<in> set (sent_during c (snd (acceptWarp c))).
      packet_sessionId p = Some (sessionId c)) \<and>
   (\<forall>p \<in> set (sent_during c (snd (requestFile fileType id' c))).
      packet_sessionId p = Some (sessionId c)) \<and>
   (\<forall>p \<in> set (sent_during c (snd (enterGame c))).
      packet_sessionId p = Some (sessionId c)) \<and>
   (\<forall>b. bus c = Some b \<longrightarrow>
      sent_during c (snd (requestWarpMap id' c)) =
        [WarpTakeClientPacket (sessionId c) id'] \<and>
      sent_during c (snd (acceptWarp c)) =
        [WarpAcceptClientPacket (sessionId c) (warpMapId c)] \<and>
      sent_during c (snd (requestFile fileType id' c)) =
        [WelcomeAgreeClientPacket (sessionId c) fileType
           (requestFile_fileTypeData fileType id')] \<and>
      sent_during c (snd (enterGame c)) =
        [WelcomeMsgClientPacket (id_Character (character c)) (sessionId c)])"
  by (simp add: requestWarpMap_def acceptWarp_def requestFile_result enterGame_def
      bus_send_def sent_during_def outgoing_def split: option.split)

theorem session_messages_carry_sessionId_witness:
  "bus attached_Client \<noteq> None \<and>
   map packet_sessionId (sent_during attached_Client (snd (requestWarpMap 7 attached_Client)))
     = [Some (sessionId attached_Client)] \<and>
   map packet_sessionId (sent_during attached_Client (snd (acceptWarp attached_Client)))
     = [Some (sessionId attached_Client)] \<and>
   map packet_sessionId (sent_during attached_Client (snd (requestFile Eif 2 attached_Client)))
     = [Some (sessionId attached_Client)] \<and>
   map packet_sessionId (sent_during attached_Client (snd (enterGame attached_Client)))
     = [Some (sessionId attached_Client)]"
  using session_messages_carry_sessionId [of attached_Client 7 Eif]
    session_messages_carry_sessionId [of attached_Client 2 Eif]
  by (auto simp add: attached_Client_fields)

subsection \<open>Calls before and after the bus is attached\<close>

lemma bus_setBus:
  "bus (setBus b c) =
     Some (b\<lparr>handlers := handlers b @
       [InitHandlers, ConnectionHandlers, LoginHandlers, WelcomeHandlers,
        PlayersHandlers, AvatarHandlers, FaceHandlers, WalkHandlers,
        SitHandlers, WarpHandlers, RefreshHandlers, NpcHandlers]\<rparr>)"
  by (simp add: setBus_def registerHandlers_def)

lemma fst_bus_send:
  "fst (bus_send packet c) = (if bus c = None then Throw TypeError else Normal)"
  by (simp add: bus_send_def split: option.split)

lemma bus_bus_send:
  "(bus (snd (bus_send packet c)) = None) = (bus c = None)"
  by (simp add: bus_send_def split: option.split)

lemma bus_snd_acceptWarp:
  "(bus (snd (acceptWarp c)) = None) = (bus c = None)"
  by (simp add: acceptWarp_def bus_send_def split: option.split)

lemma fst_acceptWarp:
  "fst (acceptWarp c) = (if bus c = None then Throw TypeError else Normal)"
  by (simp add: acceptWarp_def bus_send_def split: option.split)

text \<open>
  Claim C9: a client as constructed has \<open>bus\<close> null. In every state with \<open>bus\<close> null,
  each of \<open>login\<close>, \<open>selectCharacter\<close>, \<open>requestWarpMap\<close>, \<open>acceptWarp\<close>,
  \<open>requestFile\<close> and \<open>enterGame\<close> throws a \<open>TypeError\<close> at \<open>this.bus.send\<close>, sends
  nothing and leaves \<open>bus\<close> null (\<open>requestFile\<close> has emitted its \<open>debug\<close> event by
  then, \<open>acceptWarp\<close> has not cleared \<open>warpQueued\<close>). After \<open>setBus\<close> the bus is not
  null; in every state with a bus, each of the six methods returns normally and leaves a
  bus attached, so the throwing branch is not reached by any of them after \<open>setBus\<close>.
\<close>

theorem bus_null_dereference:
  "bus (Client_new new_Character) = None \<and>
   (bus c = None \<longrightarrow>
      login username password c = (Throw TypeError, c) \<and>
      selectCharacter characterId c = (Throw TypeError, c) \<and>
      requestWarpMap id' c = (Throw TypeError, c) \<and>
      acceptWarp c = (Throw TypeError, c) \<and>
      requestFile fileType id' c =
        (Throw TypeError, emit (Debug_event (requestFile_debug fileType)) c) \<and>
      sent_during c (snd (requestFile fileType id' c)) = [] \<and>
      bus (snd (requestFile fileType id' c)) = None \<and>
      enterGame c = (Throw TypeError, c)) \<and>
   bus (setBus b c) \<noteq> None \<and>
   (bus c \<noteq> None \<longrightarrow>
      fst (login username password c) = Normal \<and>
      bus (snd (login username password c)) \<noteq> None \<and>
      fst (selectCharacter characterId c) = Normal \<and>
      bus (snd (selectCharacter characterId c)) \<noteq> None \<and>
      fst (requestWarpMap id' c) = Normal \<and>
      bus (snd (requestWarpMap id' c)) \<noteq> None \<and>
      fst (acceptWarp c) = Normal \<and>
      bus (snd (acceptWarp c)) \<noteq> None \<and>
      fst (requestFile fileType id' c) = Normal \<and>
      bus (snd (requestFile fileType id' c)) \<noteq> None \<and>
      fst (enterGame c) = Normal \<and>
      bus (snd (enterGame c)) \<noteq> None)"
proof -
  have new: "bus (Client_new new_Character) = None"
    by (simp add: Client_new_def)
  have null: "bus c = None \<longrightarrow>
      login username password c = (Throw TypeError, c) \<and>
      selectCharacter characterId c = (Throw TypeError, c) \<and>
      requestWarpMap id' c = (Throw TypeError, c) \<and>
      acceptWarp c = (Throw TypeError, c) \<and>
      requestFile fileType id' c =
        (Throw TypeError, emit (Debug_event (requestFile_debug fileType)) c) \<and>
      sent_during c (snd (requestFile fileType id' c)) = [] \<and>
      bus (snd (requestFile fileType id' c)) = None \<and>
      enterGame c = (Throw TypeError, c)"
    by (simp add: login_def selectCharacter_def requestWarpMap_def acceptWarp_def
        requestFile_def enterGame_def emit_def bus_send_def sent_during_def outgoing_def)
  have attached: "bus (setBus b c) \<noteq> None"
    by (simp add: bus_setBus)
  have ok: "bus c \<noteq> None \<longrightarrow>
      fst (login username password c) = Normal \<and>
      bus (snd (login username password c)) \<noteq> None \<and>
      fst (selectCharacter characterId c) = Normal \<and>
      bus (snd (selectCharacter characterId c)) \<noteq> None \<and>
      fst (requestWarpMap id' c) = Normal \<and>
      bus (snd (requestWarpMap id' c)) \<noteq> None \<and>
      fst (acceptWarp c) = Normal \<and>
      bus (snd (acceptWarp c)) \<noteq> None \<and>
      fst (requestFile fileType id' c) = Normal \<and>
      bus (snd (requestFile fileType id' c)) \<noteq> None \<and>
      fst (enterGame c) = Normal \<and>
      bus (snd (enterGame c)) \<noteq> None"
    by (simp add: login_def selectCharacter_def requestWarpMap_def requestFile_result
        enterGame_def fst_bus_send bus_bus_send fst_acceptWarp bus_snd_acceptWarp)
  from new null attached ok show ?thesis by blast
qed

theorem bus_null_dereference_witness:
  "bus fresh_Client = None \<and>
   login ''bob'' ''pw'' fresh_Client = (Throw TypeError, fresh_Client) \<and>
   selectCharacter 1 fresh_Client = (Throw TypeError, fresh_Client) \<and>
   enterGame fresh_Client = (Throw TypeError, fresh_Client) \<and>
   bus (setBus empty_bus fresh_Client) \<noteq> None \<and>
   fst (login ''bob'' ''pw'' (setBus empty_bus fresh_Client)) = Normal \<and>
   fst (selectCharacter 1 (setBus empty_bus fresh_Client)) = Normal \<and>
   fst (requestWarpMap 7 (setBus empty_bus fresh_Client)) = Normal \<and>
   fst (acceptWarp (setBus empty_bus fresh_Client)) = Normal \<and>
   fst (requestFile Emf 7 (setBus empty_bus fresh_Client)) = Normal \<and>
   fst (enterGame (setBus empty_bus fresh_Client)) = Normal"
  using bus_null_dereference [of "\<lparr>id_Character = 1\<rparr>" fresh_Client "''bob''" "''pw''" 1 7 Emf empty_bus]
    bus_null_dereference [of "\<lparr>id_Character = 1\<rparr>" "setBus empty_bus fresh_Client" "''bob''" "''pw''" 1 7 Emf empty_bus]
  by (simp add: fresh_Client_def)

section \<open>Properties of entity discovery\<close>

lemma nearbyUpdate_known:
  "pid \<in> unknownPlayerIds c \<or> present pid c \<Longrightarrow> nearbyUpdate pid c = (Normal, c)"
  by (auto simp add: nearbyUpdate_def)

lemma nearbyUpdate_new:
  assumes "\<not> present q c" and "q \<notin> unknownPlayerIds c"
  shows "fetches pid (snd (nearbyUpdate q c)) =
           fetches pid c + (if bus c \<noteq> None \<and> q = pid then 1 else 0)"
    and "unknownPlayerIds (snd (nearbyUpdate q c)) = insert q (unknownPlayerIds c)"
    and "present pid (snd (nearbyUpdate q c)) = present pid c"
proof -
  let ?c1 = "c\<lparr>unknownPlayerIds := insert q (unknownPlayerIds c)\<rparr>"
  have upd: "nearbyUpdate q c = bus_send (ProfileFetchRequest q) ?c1"
    using assms by (simp add: nearbyUpdate_def)
  show "fetches pid (snd (nearbyUpdate q c)) =
      fetches pid c + (if bus c \<noteq> None \<and> q = pid then 1 else 0)"
    by (cases "bus c") (simp_all add: upd bus_send_def fetches_def outgoing_def)
  show "unknownPlayerIds (snd (nearbyUpdate q c)) = insert q (unknownPlayerIds c)"
    by (cases "bus c") (simp_all add: upd bus_send_def)
  show "present pid (snd (nearbyUpdate q c)) = present pid c"
    by (cases "bus c") (simp_all add: upd bus_send_def present_def)
qed

lemma nearbyUpdate_other:
  assumes "q \<noteq> pid"
  shows "fetches pid (snd (nearbyUpdate q c)) = fetches pid c"
    and "pid \<in> unknownPlayerIds (snd (nearbyUpdate q c)) \<longleftrightarrow> pid \<in> unknownPlayerIds c"
    and "present pid (snd (nearbyUpdate q c)) = present pid c"
proof -
  consider "q \<in> unknownPlayerIds c \<or> present q c"
    | "\<not> present q c" "q \<notin> unknownPlayerIds c"
    by blast
  then have "fetches pid (snd (nearbyUpdate q c)) = fetches pid c \<and>
    (pid \<in> unknownPlayerIds (snd (nearbyUpdate q c)) \<longleftrightarrow> pid \<in> unknownPlayerIds c) \<and>
    present pid (snd (nearbyUpdate q c)) = present pid c"
  proof cases
    case 1
    then show ?thesis by (simp add: nearbyUpdate_known)
  next
    case 2
    with assms show ?thesis by (simp add: nearbyUpdate_new)
  qed
  then show "fetches pid (snd (nearbyUpdate q c)) = fetches pid c"
    and "pid \<in> unknownPlayerIds (snd (nearbyUpdate q c)) \<longleftrightarrow> pid \<in> unknownPlayerIds c"
    and "present pid (snd (nearbyUpdate q c)) = present pid c"
    by simp_all
qed

lemma nearbyUpdate_same:
  shows "fetches pid (snd (nearbyUpdate pid c)) = fetches pid c \<or>
         fetches pid (snd (nearbyUpdate pid c)) = fetches pid c + 1"
    and "pid \<in> unknownPlayerIds (snd (nearbyUpdate pid c)) \<or>
         present pid (snd (nearbyUpdate pid c))"
proof -
  consider "pid \<in> unknownPlayerIds c \<or> present pid c"
    | "\<not> present pid c" "pid \<notin> unknownPlayerIds c"
    by blast
  then have "(fetches pid (snd (nearbyUpdate pid c)) = fetches pid c \<or>
         fetches pid (snd (nearbyUpdate pid c)) = fetches pid c + 1) \<and>
    (pid \<in> unknownPlayerIds (snd (nearbyUpdate pid c)) \<or>
         present pid (snd (nearbyUpdate pid c)))"
  proof cases
    case 1
    then show ?thesis by (simp add: nearbyUpdate_known)
  next
    case 2
    then show ?thesis by (simp add: nearbyUpdate_new)
  qed
  then show "fetches pid (snd (nearbyUpdate pid c)) = fetches pid c \<or>
         fetches pid (snd (nearbyUpdate pid c)) = fetches pid c + 1"
    and "pid \<in> unknownPlayerIds (snd (nearbyUpdate pid c)) \<or>
         present pid (snd (nearbyUpdate pid c))"
    by simp_all
qed

lemma profileReceived_fetches: "fetches pid (profileReceived info c) = fetches pid c"
  by (simp add: profileReceived_def fetches_def outgoing_def)

lemma profileReceived_known:
  "pid \<in> unknownPlayerIds c \<or> present pid c \<Longrightarrow>
   pid \<in> unknownPlayerIds (profileReceived info c) \<or> present pid (profileReceived info c)"
  by (auto simp add: profileReceived_def present_def)

lemma handle_known:
  assumes "pid \<in> unknownPlayerIds c \<or> present pid c"
  shows "fetches pid (handle n c) = fetches pid c"
    and "pid \<in> unknownPlayerIds (handle n c) \<or> present pid (handle n c)"
proof -
  show "fetches pid (handle n c) = fetches pid c"
  proof (cases n)
    case (NearbyUpdate q)
    then show ?thesis
      using assms nearbyUpdate_known [of pid c] nearbyUpdate_other(1) [of q pid c]
      by (cases "q = pid") auto
  next
    case (ProfileData info)
    then show ?thesis by (simp add: profileReceived_fetches)
  qed
  show "pid \<in> unknownPlayerIds (handle n c) \<or> present pid (handle n c)"
  proof (cases n)
    case (NearbyUpdate q)
    then show ?thesis
      using assms nearbyUpdate_same(2) [of pid c] nearbyUpdate_other(2,3) [of q pid c]
      by (cases "q = pid") auto
  next
    case (ProfileData info)
    then show ?thesis using assms profileReceived_known [of pid c info] by simp
  qed
qed

lemma handle_all_known:
  "pid \<in> unknownPlayerIds c \<or> present pid c \<Longrightarrow>
   fetches pid (handle_all ns c) = fetches pid c"
proof (induction ns arbitrary: c)
  case Nil
  then show ?case by simp
next
  case (Cons n ns)
  from Cons.prems have "pid \<in> unknownPlayerIds (handle n c) \<or> present pid (handle n c)"
    by (rule handle_known(2))
  then have "fetches pid (handle_all ns (handle n c)) = fetches pid (handle n c)"
    by (rule Cons.IH)
  with Cons.prems show ?case by (simp add: handle_known(1))
qed

lemma handle_step:
  "fetches pid (handle n c) = fetches pid c \<or>
   (fetches pid (handle n c) = fetches pid c + 1 \<and>
    (pid \<in> unknownPlayerIds (handle n c) \<or> present pid (handle n c)))"
proof (cases n)
  case (NearbyUpdate q)
  show ?thesis
  proof (cases "q = pid")
    case True
    with NearbyUpdate show ?thesis
      using nearbyUpdate_same [of pid c] by auto
  next
    case False
    with NearbyUpdate show ?thesis by (simp add: nearbyUpdate_other(1))
  qed
next
  case (ProfileData info)
  then show ?thesis by (simp add: profileReceived_fetches)
qed

lemma handle_all_at_most_one:
  "fetches pid (handle_all ns c) \<le> fetches pid c + 1"
proof (induction ns arbitrary: c)
  case Nil
  then show ?case by simp
next
  case (Cons n ns)
  from handle_step [of pid n c] show ?case
  proof
    assume "fetches pid (handle n c) = fetches pid c"
    with Cons.IH [of "handle n c"] show ?thesis by simp
  next
    assume "fetches pid (handle n c) = fetches pid c + 1 \<and>
      (pid \<in> unknownPlayerIds (handle n c) \<or> present pid (handle n c))"
    then show ?thesis using handle_all_known [of pid "handle n c" ns] by simp
  qed
qed

lemma handle_all_unseen:
  assumes "\<not> present pid c" and "pid \<notin> unknownPlayerIds c" and "bus c = Some b"
  shows "fetches pid (handle_all (replicate (Suc k) (NearbyUpdate pid)) c) = fetches pid c + 1"
proof -
  let ?c1 = "snd (nearbyUpdate pid c)"
  have one: "fetches pid ?c1 = fetches pid c + 1"
    using assms by (simp add: nearbyUpdate_new)
  have "pid \<in> unknownPlayerIds ?c1"
    using assms by (simp add: nearbyUpdate_new)
  then have "fetches pid (handle_all (replicate k (NearbyUpdate pid)) ?c1) = fetches pid ?c1"
    by (simp add: handle_all_known)
  with one show ?thesis by simp
qed

text \<open>
  Claim C3: over every sequence of notifications, at most one profile-fetch request
  for a given player identifier is added to what was sent before. The identifier is
  requested and put into \<open>unknownPlayerIds\<close> only when it is not already a member:
  a nearby-update for a member changes nothing, and once the identifier is a member or
  is present no later notification sends a request for it. For an unseen identifier and
  a client with a bus, \<open>N \<ge> 1\<close> nearby-updates referencing it send exactly one request.
  When its profile data arrives the identifier is removed from the set and is present
  in \<open>nearby.characters\<close>.
\<close>

theorem unknown_player_fetched_once:
  "fetches pid (handle_all ns c) \<le> fetches pid c + 1 \<and>
   (pid \<in> unknownPlayerIds c \<longrightarrow> nearbyUpdate pid c = (Normal, c)) \<and>
   (pid \<in> unknownPlayerIds c \<or> present pid c \<longrightarrow>
      fetches pid (handle_all ns c) = fetches pid c) \<and>
   (\<forall>b. \<not> present pid c \<and> pid \<notin> unknownPlayerIds c \<and> bus c = Some b \<longrightarrow>
      pid \<in> unknownPlayerIds (handle (NearbyUpdate pid) c) \<and>
      fetches pid (handle_all (replicate (Suc k) (NearbyUpdate pid)) c)
        = fetches pid c + 1) \<and>
   (playerId_info info = pid \<longrightarrow>
      pid \<notin> unknownPlayerIds (handle (ProfileData info) c) \<and>
      pid \<in> set (map playerId_info (characters (nearby (handle (ProfileData info) c)))))"
proof -
  have a: "fetches pid (handle_all ns c) \<le> fetches pid c + 1"
    by (rule handle_all_at_most_one)
  have b: "pid \<in> unknownPlayerIds c \<longrightarrow> nearbyUpdate pid c = (Normal, c)"
    by (simp add: nearbyUpdate_known)
  have c: "pid \<in> unknownPlayerIds c \<or> present pid c \<longrightarrow>
      fetches pid (handle_all ns c) = fetches pid c"
    using handle_all_known [of pid c ns] by blast
  have d: "\<forall>b. \<not> present pid c \<and> pid \<notin> unknownPlayerIds c \<and> bus c = Some b \<longrightarrow>
      pid \<in> unknownPlayerIds (handle (NearbyUpdate pid) c) \<and>
      fetches pid (handle_all (replicate (Suc k) (NearbyUpdate pid)) c)
        = fetches pid c + 1"
    using handle_all_unseen [of pid c _ k] by (simp add: nearbyUpdate_new)
  have e: "playerId_info info = pid \<longrightarrow>
      pid \<notin> unknownPlayerIds (handle (ProfileData info) c) \<and>
      pid \<in> set (map playerId_info (characters (nearby (handle (ProfileData info) c))))"
    by (simp add: profileReceived_def)
  from a b c d e show ?thesis by blast
qed

theorem unknown_player_fetched_once_witness:
  "\<not> present 42 attached_Client \<and> 42 \<notin> unknownPlayerIds attached_Client \<and>
   bus attached_Client \<noteq> None \<and>
   fetches 42 attached_Client = 0 \<and>
   fetches 42 (handle_all [NearbyUpdate 42, NearbyUpdate 42] attached_Client) = 1 \<and>
   42 \<in> unknownPlayerIds (handle (NearbyUpdate 42) attached_Client) \<and>
   42 \<notin> unknownPlayerIds
     (handle (ProfileData \<lparr>playerId_info = 42\<rparr>) (handle (NearbyUpdate 42) attached_Client)) \<and>
   fetches 42
     (handle_all [NearbyUpdate 42, NearbyUpdate 42, ProfileData \<lparr>playerId_info = 42\<rparr>,
        NearbyUpdate 42] attached_Client) \<le> 1"
proof -
  have pre: "\<not> present 42 attached_Client" "42 \<notin> unknownPlayerIds attached_Client"
    "fetches 42 attached_Client = 0"
    by (simp_all add: present_def fetches_def outgoing_def attached_Client_fields)
  note t1 = unknown_player_fetched_once
    [of 42 "[NearbyUpdate 42, NearbyUpdate 42, ProfileData \<lparr>playerId_info = 42\<rparr>,
        NearbyUpdate 42]" attached_Client "Suc 0" "\<lparr>playerId_info = 42\<rparr>"]
  note t2 = unknown_player_fetched_once
    [of 42 "[]" "handle (NearbyUpdate 42) attached_Client" 0 "\<lparr>playerId_info = 42\<rparr>"]
  have two: "replicate (Suc (Suc 0)) (NearbyUpdate 42) = [NearbyUpdate 42, NearbyUpdate 42]"
    by simp
  from t1 pre have "fetches 42
     (handle_all [NearbyUpdate 42, NearbyUpdate 42, ProfileData \<lparr>playerId_info = 42\<rparr>,
        NearbyUpdate 42] attached_Client) \<le> 1"
    by simp
  moreover from t1 pre two
  have "fetches 42 (handle_all [NearbyUpdate 42, NearbyUpdate 42] attached_Client) = 1"
    and "42 \<in> unknownPlayerIds (handle (NearbyUpdate 42) attached_Client)"
    by (simp_all add: attached_Client_fields)
  moreover from t2
  have "42 \<notin> unknownPlayerIds
     (handle (ProfileData \<lparr>playerId_info = 42\<rparr>) (handle (NearbyUpdate 42) attached_Client))"
    by simp
  ultimately show ?thesis using pre by (simp add: attached_Client_fields)
qed


section \<open>Properties of the death animation\<close>

lemma ticks_tick: "ticks (tick a) = max (ticks a - 1) 0"
  by (simp add: tick_def)

lemma ticks_after:
  "0 \<le> ticks a \<Longrightarrow> ticks ((tick ^^ n) a) = max (ticks a - int n) 0"
  by (induction n) (auto simp add: ticks_tick)

text \<open>
  Claim C10: for a positive \<open>NPC_DEATH_TICKS\<close>, the animation starts with \<open>ticks\<close>
  equal to \<open>NPC_DEATH_TICKS\<close>; each \<open>tick()\<close> takes one off but never goes below zero;
  after \<open>n\<close> calls of \<open>tick()\<close>, \<open>ticks\<close> is \<open>max(NPC_DEATH_TICKS - n, 0)\<close>; and the
  opacity \<open>ticks / NPC_DEATH_TICKS\<close> that \<open>render\<close> uses then lies between 0 and 1.
\<close>

theorem death_fade_bounds:
  assumes "0 < NPC_DEATH_TICKS"
  shows "ticks (NpcDeathAnimation_new NPC_DEATH_TICKS) = NPC_DEATH_TICKS \<and>
         ticks (tick a) = max (ticks a - 1) 0 \<and>
         0 \<le> ticks (tick a) \<and>
         ticks ((tick ^^ n) (NpcDeathAnimation_new NPC_DEATH_TICKS))
           = max (NPC_DEATH_TICKS - int n) 0 \<and>
         0 \<le> render_globalAlpha NPC_DEATH_TICKS
                 ((tick ^^ n) (NpcDeathAnimation_new NPC_DEATH_TICKS)) \<and>
         render_globalAlpha NPC_DEATH_TICKS
           ((tick ^^ n) (NpcDeathAnimation_new NPC_DEATH_TICKS)) \<le> 1"
proof -
  let ?a = "(tick ^^ n) (NpcDeathAnimation_new NPC_DEATH_TICKS)"
  have start: "ticks (NpcDeathAnimation_new NPC_DEATH_TICKS) = NPC_DEATH_TICKS"
    by (simp add: NpcDeathAnimation_new_def)
  have after: "ticks ?a = max (NPC_DEATH_TICKS - int n) 0"
    using assms ticks_after [of "NpcDeathAnimation_new NPC_DEATH_TICKS" n]
    by (simp add: start)
  have lo: "0 \<le> ticks ?a" and hi: "ticks ?a \<le> NPC_DEATH_TICKS"
    using assms by (simp_all add: after)
  have alpha_lo: "0 \<le> render_globalAlpha NPC_DEATH_TICKS ?a"
    using assms lo by (simp add: render_globalAlpha_def)
  have alpha_hi: "render_globalAlpha NPC_DEATH_TICKS ?a \<le> 1"
    using assms hi by (simp add: render_globalAlpha_def)
  from start after alpha_lo alpha_hi show ?thesis
    by (simp add: ticks_tick)
qed

theorem death_fade_bounds_witness:
  "(0::int) < 3 \<and>
   ticks ((tick ^^ 2) (NpcDeathAnimation_new 3)) = 1 \<and>
   render_globalAlpha 3 ((tick ^^ 2) (NpcDeathAnimation_new 3)) = 1 / 3 \<and>
   ticks ((tick ^^ 5) (NpcDeathAnimation_new 3)) = 0 \<and>
   render_globalAlpha 3 ((tick ^^ 5) (NpcDeathAnimation_new 3)) = 0"
proof -
  have "ticks ((tick ^^ 2) (NpcDeathAnimation_new 3)) = 1"
    using death_fade_bounds [of 3 "NpcDeathAnimation_new 3" 2] by simp
  moreover have "ticks ((tick ^^ 5) (NpcDeathAnimation_new 3)) = 0"
    using death_fade_bounds [of 3 "NpcDeathAnimation_new 3" 5] by simp
  ultimately show ?thesis by (simp add: render_globalAlpha_def)
qed

end
